theory Spec2Isabelle
  imports Main
begin

section \<open>Strings and characters of the JavaScript source\<close>

text \<open>
  A JavaScript string is the list of its UTF-16 code units, each a number below 65536.
  The regular expressions of \<^verbatim>\<open>s3SafeFileName\<close> have no \<^verbatim>\<open>u\<close> flag, so they, like
  \<^verbatim>\<open>lastIndexOf\<close> and \<^verbatim>\<open>substring\<close>, work on code units. \<open>js\<close> gives the string of
  a literal written in ASCII.
\<close>

type_synonym code_unit = nat

type_synonym js_string = "code_unit list"

definition js :: "string \<Rightarrow> js_string" where
  "js s = map of_char s"

abbreviation SPACE :: code_unit where "SPACE \<equiv> 32"

abbreviation DASH :: code_unit where "DASH \<equiv> 45"

abbreviation DOT :: code_unit where "DOT \<equiv> 46"

abbreviation SLASH :: code_unit where "SLASH \<equiv> 47"

text \<open>
  \<^verbatim>\<open>\s\<close> and \<^verbatim>\<open>trim()\<close> share one set of white space: TAB, LF, VT, FF, CR, SPACE, NBSP
  (U+00A0), U+1680, U+2000 to U+200A, the line and paragraph separators U+2028 and U+2029,
  U+202F, U+205F, U+3000 and the byte order mark U+FEFF.
\<close>

definition isWhiteSpace :: "code_unit \<Rightarrow> bool" where
  "isWhiteSpace c =
     (c \<in> {9, 10, 11, 12, 13, 32, 160, 5760, 8232, 8233, 8239, 8287, 12288, 65279}
      \<or> (8192 \<le> c \<and> c \<le> 8202))"

definition isAsciiUpper :: "code_unit \<Rightarrow> bool" where
  "isAsciiUpper c = (65 \<le> c \<and> c \<le> 90)"

definition isAsciiLower :: "code_unit \<Rightarrow> bool" where
  "isAsciiLower c = (97 \<le> c \<and> c \<le> 122)"

definition isDigit :: "code_unit \<Rightarrow> bool" where
  "isDigit c = (48 \<le> c \<and> c \<le> 57)"

text \<open>
  \<^verbatim>\<open>String.prototype.toLowerCase\<close> maps every ASCII code unit on its own: A-Z to a-z, any
  other to itself. What it makes of a code unit from U+0080 on is laid down in the Unicode
  case tables, which are not part of the repository, and can depend on the neighbouring
  code units (a surrogate pair, a final sigma). That part is a parameter of the model:
  \<open>table before c after\<close> is the lowercase text for the code unit \<open>c\<close> that stands
  between \<open>before\<close> and \<open>after\<close>.
\<close>

type_synonym lowercase_table = "js_string \<Rightarrow> code_unit \<Rightarrow> js_string \<Rightarrow> js_string"

definition asciiToLower :: "code_unit \<Rightarrow> code_unit" where
  "asciiToLower c = (if isAsciiUpper c then c + 32 else c)"

fun toLowerCaseFrom :: "lowercase_table \<Rightarrow> js_string \<Rightarrow> js_string \<Rightarrow> js_string" where
  "toLowerCaseFrom table before [] = []"
| "toLowerCaseFrom table before (c # after) =
     (if c < 128 then [asciiToLower c] else table before c after)
       @ toLowerCaseFrom table (before @ [c]) after"

definition toLowerCase :: "lowercase_table \<Rightarrow> js_string \<Rightarrow> js_string" where
  "toLowerCase table s = toLowerCaseFrom table [] s"

text \<open>\<^verbatim>\<open>s.lastIndexOf(c)\<close>: the index of the last occurrence, or -1.\<close>

fun lastIndexOf :: "js_string \<Rightarrow> code_unit \<Rightarrow> int" where
  "lastIndexOf [] c = -1"
| "lastIndexOf (x # xs) c =
     (if c \<in> set xs then 1 + lastIndexOf xs c else if x = c then 0 else -1)"

text \<open>\<^verbatim>\<open>s.substring(i)\<close> and \<^verbatim>\<open>s.substring(0, i)\<close> for an index \<open>i \<ge> 0\<close>.\<close>

definition substringFrom :: "js_string \<Rightarrow> int \<Rightarrow> js_string" where
  "substringFrom s i = drop (nat i) s"

definition substringTo :: "js_string \<Rightarrow> int \<Rightarrow> js_string" where
  "substringTo s i = take (nat i) s"

definition trim :: "js_string \<Rightarrow> js_string" where
  "trim s = rev (dropWhile isWhiteSpace (rev (dropWhile isWhiteSpace s)))"

text \<open>\<^verbatim>\<open>.replace(/[^a-zA-Z0-9\s\/]/g, ' ')\<close>\<close>

definition replaceUnsafe :: "js_string \<Rightarrow> js_string" where
  "replaceUnsafe s =
     map (\<lambda>c. if isAsciiLower c \<or> isAsciiUpper c \<or> isDigit c \<or> isWhiteSpace c \<or> c = SLASH
              then c else SPACE) s"

text \<open>\<^verbatim>\<open>.replace(/\s+/g, ' ')\<close>: every maximal run of white space becomes one space.\<close>

fun collapseSpaces :: "js_string \<Rightarrow> js_string" where
  "collapseSpaces [] = []"
| "collapseSpaces [c] = (if isWhiteSpace c then [SPACE] else [c])"
| "collapseSpaces (c # d # cs) =
     (if isWhiteSpace c
      then (if isWhiteSpace d then collapseSpaces (d # cs)
            else SPACE # collapseSpaces (d # cs))
      else c # collapseSpaces (d # cs))"

text \<open>\<^verbatim>\<open>.replace(/\s/g, '-')\<close>\<close>

definition spacesToDashes :: "js_string \<Rightarrow> js_string" where
  "spacesToDashes s = map (\<lambda>c. if isWhiteSpace c then DASH else c) s"

text \<open>\<^verbatim>\<open>.replace(/^\//, '')\<close>: one leading slash is removed.\<close>

definition removeLeadingSlash :: "js_string \<Rightarrow> js_string" where
  "removeLeadingSlash s = (case s of [] \<Rightarrow> [] | c # cs \<Rightarrow> if c = SLASH then cs else c # cs)"

section \<open>Key derivation: \<^verbatim>\<open>s3SafeFileName\<close> (server/managers/StorageManager.js)\<close>

text \<open>The local constants of the function, one definition each, in the source's order.\<close>

definition ext :: "js_string \<Rightarrow> js_string" where
  "ext fileName =
     (if lastIndexOf fileName DOT > 0
      then substringFrom fileName (lastIndexOf fileName DOT) else [])"

definition nameWithoutExt :: "js_string \<Rightarrow> js_string" where
  "nameWithoutExt fileName =
     (if ext fileName \<noteq> []
      then substringTo fileName (lastIndexOf fileName DOT) else fileName)"

definition safeName :: "lowercase_table \<Rightarrow> js_string \<Rightarrow> js_string" where
  "safeName table fileName =
     spacesToDashes
       (toLowerCase table (collapseSpaces (trim (replaceUnsafe (nameWithoutExt fileName)))))"

definition safeExt :: "lowercase_table \<Rightarrow> js_string \<Rightarrow> js_string" where
  "safeExt table fileName =
     filter (\<lambda>c. isAsciiLower c \<or> isDigit c \<or> c = DOT) (toLowerCase table (ext fileName))"

definition s3SafeFileName :: "lowercase_table \<Rightarrow> js_string \<Rightarrow> js_string" where
  "s3SafeFileName table fileName =
     removeLeadingSlash (safeName table fileName) @ safeExt table fileName"




definition isAscii :: "code_unit \<Rightarrow> bool" where
  "isAscii c = (c < 128)"


text \<open>
  A case table for the examples: it has the two code units whose lowercase form holds an
  ASCII letter, the dotted capital I (U+0130, to i and the combining dot U+0307) and the
  Kelvin sign (U+212A, to k); it keeps every other code unit.
\<close>

definition example_table :: lowercase_table where
  "example_table before c after =
     (if c = 304 then [105, 775] else if c = 8490 then [107] else [c])"

text \<open>
  A file name with a leading slash, an ideographic space (U+3000) in its body and the
  Kelvin sign and the dotted capital I in its extension.
\<close>

definition example_fileName :: js_string where
  "example_fileName = js ''/My Book'' @ [12288] @ js ''x.M'' @ [8490, 304]"

section \<open>The storage manager (server/managers/StorageManager.js and its sibling revision)\<close>

text \<open>
  Two revisions of the \<^verbatim>\<open>StorageManager\<close> class are in the repository. They share the
  constructor, \<^verbatim>\<open>init\<close>, \<^verbatim>\<open>initS3Storage\<close> and \<^verbatim>\<open>testS3Connection\<close>. The revision
  without a file name derives keys with \<^verbatim>\<open>getKey\<close> and has \<^verbatim>\<open>cacheZipFile\<close>,
  \<^verbatim>\<open>getSignedUrlForZipFile\<close> and \<^verbatim>\<open>zipFileExists\<close>; server/managers/StorageManager.js
  derives keys with \<^verbatim>\<open>s3SafeFileName\<close> and has \<^verbatim>\<open>cacheFile\<close>, \<^verbatim>\<open>getSignedUrlForFile\<close>
  and its own \<^verbatim>\<open>zipFileExists\<close> (here \<open>zipFileExists_StorageManager\<close>).

  File names, item ids and object keys, the strings that \<^verbatim>\<open>s3SafeFileName\<close> and
  \<^verbatim>\<open>getKey\<close> work on, are lists of code units. Settings, bucket names and the names and
  messages of errors are only compared or passed on; they are kept as \<^typ>\<open>string\<close>. The
  case table of the runtime is an argument of the methods that call \<^verbatim>\<open>s3SafeFileName\<close>.

  A thrown JavaScript error is a value with a \<^verbatim>\<open>name\<close> and a \<^verbatim>\<open>message\<close>; an async
  method that rejects returns \<open>Inl\<close> of it. Calls to \<^verbatim>\<open>Logger\<close> are left out, except
  that a template literal naming an identifier that is not in scope throws a
  \<^verbatim>\<open>ReferenceError\<close> when it is evaluated.
\<close>

datatype js_error = JsError (errorName: string) (errorMessage: string)

definition Error :: "string \<Rightarrow> js_error" where
  "Error msg = JsError ''Error'' msg"

definition TypeError :: "string \<Rightarrow> js_error" where
  "TypeError msg = JsError ''TypeError'' msg"

definition ReferenceError :: "string \<Rightarrow> js_error" where
  "ReferenceError ident = JsError ''ReferenceError'' (ident @ '' is not defined'')"

record server_settings =
  cloudStorageEnabled :: bool
  cloudStorageS3Region :: "string option"
  cloudStorageS3Bucket :: "string option"
  cloudStorageS3AccessKey :: "string option"
  cloudStorageS3SecretKey :: "string option"

text \<open>A setting is falsy when it is missing (\<open>None\<close>) or the empty string.\<close>

fun truthy :: "string option \<Rightarrow> bool" where
  "truthy None = False"
| "truthy (Some s) = (s \<noteq> [])"

datatype s3_client =
  S3Client (region: "string option") (accessKeyId: "string option") (secretAccessKey: "string option")

record storage_manager =
  s3Client :: "s3_client option"
  bucket :: "string option"
  isInitialized :: bool
  isS3Enabled :: bool

definition new_StorageManager :: storage_manager where
  "new_StorageManager =
     \<lparr>s3Client = None, bucket = None, isInitialized = False, isS3Enabled = False\<rparr>"

datatype payload = Buffer "nat list" | Stream "nat list"

fun isBuffer :: "payload \<Rightarrow> bool" where
  "isBuffer (Buffer b) = True"
| "isBuffer (Stream b) = False"

fun bytes :: "payload \<Rightarrow> nat list" where
  "bytes (Buffer b) = b"
| "bytes (Stream b) = b"

subsection \<open>The object store\<close>

text \<open>
  The object store and its client library are outside the repository. A request is a
  command with its Bucket, Key, Body and ContentType. The store keeps the objects, the
  requests it was sent (the signing of a URL is recorded among them), and the clients
  that were constructed. \<open>failure w n c\<close> is the
  environment's choice: \<open>Some e\<close> makes the request \<open>c\<close>, sent after \<open>n\<close> earlier
  requests, fail with \<open>e\<close>. A request that does not fail takes effect: a put or an upload
  stores the body, a head of a missing object answers with an error named
  \<^verbatim>\<open>NotFound\<close>.
\<close>

datatype command =
    HeadBucketCommand "string option"
  | PutObjectCommand "string option" js_string "nat list" "string option"
  | Upload "string option" js_string "nat list" "string option"
  | HeadObjectCommand "string option" js_string
  | GetObjectPresign "string option" js_string int

datatype signed_url = SignedUrl "string option" js_string int

record object_store =
  objects :: "(string option \<times> js_string) \<rightharpoonup> nat list"
  requests :: "command list"
  clients :: "s3_client list"
  failure :: "nat \<Rightarrow> command \<Rightarrow> js_error option"

fun store_effect :: "object_store \<Rightarrow> command \<Rightarrow> (js_error + unit) \<times> object_store" where
  "store_effect w (HeadBucketCommand b) = (Inr (), w)"
| "store_effect w (PutObjectCommand b k body ct) =
     (Inr (), w\<lparr>objects := (objects w)((b, k) \<mapsto> body)\<rparr>)"
| "store_effect w (Upload b k body ct) =
     (Inr (), w\<lparr>objects := (objects w)((b, k) \<mapsto> body)\<rparr>)"
| "store_effect w (HeadObjectCommand b k) =
     (if objects w (b, k) = None then (Inl (JsError ''NotFound'' ''UnknownError''), w)
      else (Inr (), w))"
| "store_effect w (GetObjectPresign b k expiresIn) = (Inr (), w)"

definition request :: "object_store \<Rightarrow> command \<Rightarrow> (js_error + unit) \<times> object_store" where
  "request w c =
     (case failure w (length (requests w)) c of
        Some e \<Rightarrow> (Inl e, w\<lparr>requests := requests w @ [c]\<rparr>)
      | None \<Rightarrow> store_effect (w\<lparr>requests := requests w @ [c]\<rparr>) c)"

text \<open>
  \<^verbatim>\<open>this.s3Client.send(command)\<close> and \<^verbatim>\<open>new Upload({client: this.s3Client, ...}).done()\<close>:
  with no client the call throws before any request is sent.
\<close>

definition send :: "storage_manager \<Rightarrow> object_store \<Rightarrow> command \<Rightarrow> (js_error + unit) \<times> object_store" where
  "send m w c =
     (case s3Client m of
        None \<Rightarrow> (Inl (TypeError ''Cannot read properties of null''), w)
      | Some client \<Rightarrow> request w c)"

text \<open>\<^verbatim>\<open>getSignedUrl(this.s3Client, new GetObjectCommand({Bucket, Key}), { expiresIn })\<close>\<close>

definition getSignedUrl ::
  "storage_manager \<Rightarrow> object_store \<Rightarrow> js_string \<Rightarrow> int
     \<Rightarrow> (js_error + signed_url) \<times> object_store" where
  "getSignedUrl m w key expiresIn =
     (case send m w (GetObjectPresign (bucket m) key expiresIn) of
        (Inl e, w') \<Rightarrow> (Inl e, w')
      | (Inr u, w') \<Rightarrow> (Inr (SignedUrl (bucket m) key expiresIn), w'))"

fun isHeadBucket :: "command \<Rightarrow> bool" where
  "isHeadBucket (HeadBucketCommand b) = True"
| "isHeadBucket c = False"

subsection \<open>Lifecycle: \<^verbatim>\<open>init\<close>, \<^verbatim>\<open>initS3Storage\<close>, \<^verbatim>\<open>testS3Connection\<close>\<close>

definition testS3Connection ::
  "storage_manager \<Rightarrow> object_store \<Rightarrow> (js_error + unit) \<times> object_store" where
  "testS3Connection m w =
     (case send m w (HeadBucketCommand (bucket m)) of
        (Inr u, w') \<Rightarrow> (Inr (), w')
      | (Inl error, w') \<Rightarrow>
          (Inl (Error (''S3 bucket access failed: '' @ errorMessage error)), w'))"

definition initS3Storage ::
  "server_settings \<Rightarrow> storage_manager \<Rightarrow> object_store
     \<Rightarrow> (js_error + unit) \<times> storage_manager \<times> object_store" where
  "initS3Storage settings m w =
     (if \<not> truthy (cloudStorageS3Region settings) \<or> \<not> truthy (cloudStorageS3Bucket settings)
      then (Inl (Error ''S3 storage requires region and bucket configuration''), m, w)
      else if \<not> truthy (cloudStorageS3AccessKey settings)
              \<or> \<not> truthy (cloudStorageS3SecretKey settings)
      then (Inl (Error ''S3 storage requires access key and secret key''), m, w)
      else
        (let client = S3Client (cloudStorageS3Region settings)
                        (cloudStorageS3AccessKey settings) (cloudStorageS3SecretKey settings);
             m' = m\<lparr>s3Client := Some client, bucket := cloudStorageS3Bucket settings\<rparr>;
             w' = w\<lparr>clients := clients w @ [client]\<rparr>
         in case testS3Connection m' w' of (r, w'') \<Rightarrow> (r, m', w'')))"

text \<open>\<^verbatim>\<open>init()\<close> reads \<^verbatim>\<open>Database.serverSettings\<close>, here the first argument.\<close>

definition init ::
  "server_settings \<Rightarrow> storage_manager \<Rightarrow> object_store
     \<Rightarrow> (js_error + unit) \<times> storage_manager \<times> object_store" where
  "init serverSettings m w =
     (if \<not> cloudStorageEnabled serverSettings then (Inr (), m, w)
      else case initS3Storage serverSettings m w of
             (Inr u, m', w') \<Rightarrow> (Inr (), m'\<lparr>isInitialized := True\<rparr>, w')
           | (Inl error, m', w') \<Rightarrow> (Inl error, m', w'))"

text \<open>
  The states a manager can be in: the module exports one \<^verbatim>\<open>new StorageManager()\<close>, and
  \<^verbatim>\<open>init\<close> is the only method that assigns a field.
\<close>

inductive reachable :: "storage_manager \<Rightarrow> bool" where
  constructed: "reachable new_StorageManager"
| initialised: "reachable m \<Longrightarrow> reachable (fst (snd (init serverSettings m w)))"

subsection \<open>Cache writer\<close>

definition getKey :: "js_string \<Rightarrow> js_string" where
  "getKey itemId = js ''audiobooks/'' @ itemId @ js ''.zip''"

text \<open>
  In both methods the \<^verbatim>\<open>catch\<close> block logs with \<^verbatim>\<open>${bookId}\<close>, an identifier that is
  not in scope, before it would rethrow.
\<close>

definition cacheZipFile ::
  "storage_manager \<Rightarrow> object_store \<Rightarrow> js_string \<Rightarrow> payload
     \<Rightarrow> (js_error + js_string) \<times> object_store" where
  "cacheZipFile m w itemId data =
     (if \<not> isInitialized m then (Inl (Error ''S3 storage not initialized''), w)
      else
        (let key = getKey itemId
         in case (if isBuffer data
                  then send m w (PutObjectCommand (bucket m) key (bytes data) (Some ''application/zip''))
                  else send m w (Upload (bucket m) key (bytes data) (Some ''application/zip''))) of
              (Inr u, w') \<Rightarrow> (Inr key, w')
            | (Inl error, w') \<Rightarrow> (Inl (ReferenceError ''bookId''), w')))"

definition cacheFile ::
  "lowercase_table \<Rightarrow> storage_manager \<Rightarrow> object_store \<Rightarrow> js_string \<Rightarrow> payload
     \<Rightarrow> (js_error + js_string) \<times> object_store" where
  "cacheFile table m w fileName data =
     (if \<not> isInitialized m then (Inl (Error ''S3 storage not initialized''), w)
      else
        (let key = s3SafeFileName table fileName
         in case (if isBuffer data
                  then send m w (PutObjectCommand (bucket m) key (bytes data) None)
                  else send m w (Upload (bucket m) key (bytes data) None)) of
              (Inr u, w') \<Rightarrow> (Inr key, w')
            | (Inl error, w') \<Rightarrow> (Inl (ReferenceError ''bookId''), w')))"

subsection \<open>Existence and retrieval\<close>

definition isNotFound :: "js_error \<Rightarrow> bool" where
  "isNotFound error = (errorName error = ''NotFound'' \<or> errorName error = ''NoSuchKey'')"

text \<open>\<^verbatim>\<open>expiresIn = 3600\<close>: a missing argument takes the default.\<close>

fun expiresInOrDefault :: "int option \<Rightarrow> int" where
  "expiresInOrDefault None = 3600"
| "expiresInOrDefault (Some n) = n"

text \<open>
  \<^verbatim>\<open>getSignedUrlForZipFile\<close>: the result \<open>Inr None\<close> is \<^verbatim>\<open>null\<close>. Both the head request and
  the signing are inside one \<^verbatim>\<open>try\<close>; the \<^verbatim>\<open>catch\<close> block returns \<^verbatim>\<open>null\<close> for a
  not-found error and rethrows any other.
\<close>

definition getSignedUrlForZipFile ::
  "storage_manager \<Rightarrow> object_store \<Rightarrow> js_string \<Rightarrow> int option
     \<Rightarrow> (js_error + signed_url option) \<times> object_store" where
  "getSignedUrlForZipFile m w itemId expiresIn =
     (if \<not> isInitialized m then (Inl (Error ''S3 storage not initialized''), w)
      else
        (let key = getKey itemId
         in case (case send m w (HeadObjectCommand (bucket m) key) of
                    (Inl error, w') \<Rightarrow> (Inl error, w')
                  | (Inr u, w') \<Rightarrow> getSignedUrl m w' key (expiresInOrDefault expiresIn)) of
              (Inr signedUrl, w'') \<Rightarrow> (Inr (Some signedUrl), w'')
            | (Inl error, w'') \<Rightarrow>
                (if isNotFound error then (Inr None, w'') else (Inl error, w''))))"

text \<open>
  \<^verbatim>\<open>getSignedUrlForFile\<close>: an uninitialised manager gives \<^verbatim>\<open>null\<close>. For an error that is
  not a not-found error the \<^verbatim>\<open>catch\<close> block is written to log and return \<^verbatim>\<open>null\<close>; its
  log message reads \<^verbatim>\<open>${itemId}\<close>, which is not in scope in this method.
\<close>

definition getSignedUrlForFile ::
  "lowercase_table \<Rightarrow> storage_manager \<Rightarrow> object_store \<Rightarrow> js_string \<Rightarrow> int option
     \<Rightarrow> (js_error + signed_url option) \<times> object_store" where
  "getSignedUrlForFile table m w fileName expiresIn =
     (if \<not> isInitialized m then (Inr None, w)
      else
        (let key = s3SafeFileName table fileName
         in case (case send m w (HeadObjectCommand (bucket m) key) of
                    (Inl error, w') \<Rightarrow> (Inl error, w')
                  | (Inr u, w') \<Rightarrow> getSignedUrl m w' key (expiresInOrDefault expiresIn)) of
              (Inr signedUrl, w'') \<Rightarrow> (Inr (Some signedUrl), w'')
            | (Inl error, w'') \<Rightarrow>
                (if isNotFound error then (Inr None, w'')
                 else (Inl (ReferenceError ''itemId''), w''))))"

text \<open>
  \<^verbatim>\<open>zipFileExists(itemId, filename = 'audio.mp3')\<close>: the second argument is passed on to
  the key function, which ignores it. The log message of the last branch reads
  \<^verbatim>\<open>${bookId}\<close>, which is not in scope.
\<close>

definition zipFileExists ::
  "storage_manager \<Rightarrow> object_store \<Rightarrow> js_string \<Rightarrow> (js_error + bool) \<times> object_store" where
  "zipFileExists m w itemId =
     (if \<not> isInitialized m \<or> \<not> isS3Enabled m then (Inr False, w)
      else
        (let key = getKey itemId
         in case send m w (HeadObjectCommand (bucket m) key) of
              (Inr u, w') \<Rightarrow> (Inr True, w')
            | (Inl error, w') \<Rightarrow>
                (if isNotFound error then (Inr False, w')
                 else (Inl (ReferenceError ''bookId''), w'))))"

definition zipFileExists_StorageManager ::
  "lowercase_table \<Rightarrow> storage_manager \<Rightarrow> object_store \<Rightarrow> js_string
     \<Rightarrow> (js_error + bool) \<times> object_store" where
  "zipFileExists_StorageManager table m w itemId =
     (if \<not> isInitialized m \<or> \<not> isS3Enabled m then (Inr False, w)
      else
        (let key = s3SafeFileName table itemId
         in case send m w (HeadObjectCommand (bucket m) key) of
              (Inr u, w') \<Rightarrow> (Inr True, w')
            | (Inl error, w') \<Rightarrow>
                (if isNotFound error then (Inr False, w')
                 else (Inl (ReferenceError ''bookId''), w'))))"

subsection \<open>Concrete inputs\<close>

text \<open>
  A complete configuration, a store that holds nothing and never fails, and a store whose
  answer to every head-object request is an access-denied error.
\<close>

definition example_settings :: server_settings where
  "example_settings =
     \<lparr>cloudStorageEnabled = True,
      cloudStorageS3Region = Some ''us-east-1'',
      cloudStorageS3Bucket = Some ''abs-cache'',
      cloudStorageS3AccessKey = Some ''AKIA'',
      cloudStorageS3SecretKey = Some ''secret''\<rparr>"

definition empty_store :: object_store where
  "empty_store = \<lparr>objects = Map.empty, requests = [], clients = [], failure = (\<lambda>n c. None)\<rparr>"

fun isHeadObject :: "command \<Rightarrow> bool" where
  "isHeadObject (HeadObjectCommand b k) = True"
| "isHeadObject c = False"

definition accessDenied :: js_error where
  "accessDenied = JsError ''AccessDenied'' ''Access Denied''"

definition denying_store :: object_store where
  "denying_store =
     \<lparr>objects = Map.empty, requests = [], clients = [],
      failure = (\<lambda>n c. if isHeadObject c then Some accessDenied else None)\<rparr>"

text \<open>A store that holds the archive of item \<^verbatim>\<open>li_1\<close> and refuses to sign.\<close>

fun isPresign :: "command \<Rightarrow> bool" where
  "isPresign (GetObjectPresign b k expiresIn) = True"
| "isPresign c = False"

definition unsigning_store :: object_store where
  "unsigning_store =
     \<lparr>objects = [(Some ''abs-cache'', js ''audiobooks/li_1.zip'') \<mapsto> [80, 75]],
      requests = [], clients = [],
      failure = (\<lambda>n c. if isPresign c then Some accessDenied else None)\<rparr>"

text \<open>The manager after a successful \<^verbatim>\<open>init\<close> with the complete configuration.\<close>

definition ready_manager :: storage_manager where
  "ready_manager = fst (snd (init example_settings new_StorageManager empty_store))"

definition ready_store :: object_store where
  "ready_store = snd (snd (init example_settings new_StorageManager empty_store))"


section \<open>Migration v2.31.0-add-default-permission: \<^verbatim>\<open>up\<close>\<close>

text \<open>
  The \<^verbatim>\<open>permissions\<close> column holds JSON text. The model keeps the column by what
  \<^verbatim>\<open>user.permissions ? JSON.parse(user.permissions) : {}\<close> makes of it: the text is falsy
  (NULL or empty), or \<^verbatim>\<open>JSON.parse\<close> throws on it, or it denotes a JSON value. Layout and
  escapes are not tracked, and an object is the list of its members as \<^verbatim>\<open>JSON.parse\<close>
  leaves them, in insertion order. Numbers are tracked as they are written, because
  \<^verbatim>\<open>JSON.parse\<close> reads a number as a double and \<^verbatim>\<open>JSON.stringify\<close> writes that double
  back: \<open>Digits i\<close> is a literal of plain digits with the value \<open>i\<close>, \<open>OtherNumber t\<close>
  any other number literal (a fraction, an exponent), kept by its text. A failing
  \<^verbatim>\<open>tableExists\<close> or SELECT rejects the migration before any row is written; that path is
  not modelled.
\<close>

datatype json_number = Digits int | OtherNumber string

datatype json =
    JNull
  | JBool bool
  | JNum json_number
  | JStr string
  | JArr "json list"
  | JObj "(string \<times> json) list"

datatype permissions_text = Falsy | NotJson string | Json json

record user =
  user_id :: string
  username :: string
  user_type :: string
  permissions :: permissions_text
  otherColumns :: "string list"

text \<open>
  The double nearest to an integer of magnitude up to \<open>2 ^ 54\<close>: the integer itself up to
  \<open>2 ^ 53\<close>; above that the doubles are the even integers, an odd integer lies midway
  between two of them, and the tie goes to the one whose half is even.
\<close>

definition nearestDouble :: "int \<Rightarrow> int" where
  "nearestDouble i =
     (if \<bar>i\<bar> \<le> 2 ^ 53 \<or> even i then i
      else if even (\<bar>i\<bar> div 2) then i - sgn i
      else i + sgn i)"

text \<open>
  What \<^verbatim>\<open>JSON.stringify(JSON.parse(t))\<close> writes for a number literal: a number literal,
  or \<open>None\<close> for \<^verbatim>\<open>null\<close> (a literal too large for a double is read as Infinity, which
  is written as \<^verbatim>\<open>null\<close>). For plain digits up to \<open>2 ^ 54\<close> it is the nearest double,
  written as plain digits. For every other literal it is what the runtime's number
  conversions give, a parameter of the model (\<open>other\<close>).
\<close>

definition numberRoundTrip ::
  "(json_number \<Rightarrow> json_number option) \<Rightarrow> json_number \<Rightarrow> json_number option" where
  "numberRoundTrip other n =
     (case n of
        Digits i \<Rightarrow> if \<bar>i\<bar> \<le> 2 ^ 54 then Some (Digits (nearestDouble i)) else other n
      | OtherNumber t \<Rightarrow> other n)"

text \<open>
  \<^verbatim>\<open>JSON.stringify\<close> of a value that \<^verbatim>\<open>JSON.parse\<close> gave: every number comes back as
  the double it was read as, everything else as it was. (Between the two calls the
  migration only tests for a member and adds a boolean one, so the conversion of the
  numbers is modelled where the value is written.)
\<close>

primrec stringify :: "(json_number \<Rightarrow> json_number option) \<Rightarrow> json \<Rightarrow> json" where
  "stringify other JNull = JNull"
| "stringify other (JBool b) = JBool b"
| "stringify other (JNum n) =
     (case numberRoundTrip other n of None \<Rightarrow> JNull | Some n' \<Rightarrow> JNum n')"
| "stringify other (JStr s) = JStr s"
| "stringify other (JArr xs) = JArr (map (stringify other) xs)"
| "stringify other (JObj members) = JObj (map (map_prod id (stringify other)) members)"

text \<open>
  \<^verbatim>\<open>user.permissions ? JSON.parse(user.permissions) : {}\<close>. The value is kept with its
  numbers as written; that they were read as doubles shows when the value is written back
  (\<open>stringify\<close>).
\<close>

fun parsePermissions :: "permissions_text \<Rightarrow> js_error + json" where
  "parsePermissions Falsy = Inr (JObj [])"
| "parsePermissions (NotJson t) = Inl (JsError ''SyntaxError'' ''Unexpected token'')"
| "parsePermissions (Json v) = Inr v"

text \<open>
  \<^verbatim>\<open>if (permissions.saveToCloud === undefined) { permissions.saveToCloud = true; ... }\<close>:
  \<open>Inr (Some v)\<close> is the value that is stringified into the UPDATE, \<open>Inr None\<close> the
  \<^verbatim>\<open>else\<close> branch, \<open>Inl\<close> the TypeError of reading a property of \<^verbatim>\<open>null\<close>. A number,
  string or boolean has no such property and does not take the assignment; an array takes
  it, and \<^verbatim>\<open>JSON.stringify\<close> leaves it out.
\<close>

fun addSaveToCloud :: "json \<Rightarrow> js_error + json option" where
  "addSaveToCloud JNull = Inl (TypeError ''Cannot read properties of null'')"
| "addSaveToCloud (JObj members) =
     (if map_of members ''saveToCloud'' = None
      then Inr (Some (JObj (members @ [(''saveToCloud'', JBool True)])))
      else Inr None)"
| "addSaveToCloud v = Inr (Some v)"

text \<open>\<^verbatim>\<open>SELECT id, username, type, permissions FROM users WHERE type IN ('root', 'admin')\<close>\<close>

definition isRootOrAdmin :: "user \<Rightarrow> bool" where
  "isRootOrAdmin u = (user_type u = ''root'' \<or> user_type u = ''admin'')"

definition selectRootAndAdmin :: "user list \<Rightarrow> user list" where
  "selectRootAndAdmin users = filter isRootOrAdmin users"

text \<open>\<^verbatim>\<open>UPDATE users SET permissions = :permissions WHERE id = :id\<close>\<close>

definition updatePermissions :: "user list \<Rightarrow> string \<Rightarrow> permissions_text \<Rightarrow> user list" where
  "updatePermissions users i p =
     map (\<lambda>u. if user_id u = i then u\<lparr>permissions := p\<rparr> else u) users"

text \<open>
  The body of the \<^verbatim>\<open>for\<close> loop. Its \<^verbatim>\<open>try\<close> block catches a failing parse, a failing
  property read and a failing UPDATE alike, and the loop goes on. \<open>updateFails u\<close> says
  that the database rejects the UPDATE for \<open>u\<close>.
\<close>

definition upUser ::
  "(json_number \<Rightarrow> json_number option) \<Rightarrow> (user \<Rightarrow> bool) \<Rightarrow> user list \<Rightarrow> user \<Rightarrow> user list" where
  "upUser other updateFails users u =
     (case parsePermissions (permissions u) of
        Inl e \<Rightarrow> users
      | Inr perms \<Rightarrow>
          (case addSaveToCloud perms of
             Inl e \<Rightarrow> users
           | Inr None \<Rightarrow> users
           | Inr (Some perms') \<Rightarrow>
               if updateFails u then users
               else updatePermissions users (user_id u) (Json (stringify other perms'))))"

fun upLoop ::
  "(json_number \<Rightarrow> json_number option) \<Rightarrow> (user \<Rightarrow> bool) \<Rightarrow> user list \<Rightarrow> user list
     \<Rightarrow> user list" where
  "upLoop other updateFails [] users = users"
| "upLoop other updateFails (u # selected) users =
     upLoop other updateFails selected (upUser other updateFails users u)"

text \<open>The database is \<open>None\<close> when the \<^verbatim>\<open>users\<close> table does not exist.\<close>

definition up ::
  "(json_number \<Rightarrow> json_number option) \<Rightarrow> (user \<Rightarrow> bool) \<Rightarrow> user list option
     \<Rightarrow> user list option" where
  "up other updateFails db =
     (case db of
        None \<Rightarrow> None
      | Some users \<Rightarrow> Some (upLoop other updateFails (selectRootAndAdmin users) users))"





text \<open>An administrator whose permissions hold a number that is not a double.\<close>

definition big_number_user :: user where
  "big_number_user =
     \<lparr>user_id = ''u6'', username = ''max'', user_type = ''admin'',
      permissions = Json (JObj [(''n'', JNum (Digits 9007199254740993))]),
      otherColumns = []\<rparr>"

section \<open>client/components/tables/LibraryFilesTableRow.vue: \<^verbatim>\<open>saveToCloud\<close>\<close>

text \<open>
  JavaScript runs an async method up to its \<^verbatim>\<open>await\<close> without interleaving, and the
  rest when the awaited request has settled. The method is therefore two steps on the
  component's state: \<open>saveToCloud_call\<close>, from the click to the \<^verbatim>\<open>await\<close>, and
  \<open>saveToCloud_resume\<close>, from the settled request to the end of \<^verbatim>\<open>finally\<close>. The state
  counts the requests that were sent and those still in flight.
\<close>

datatype toast = ToastSuccess string | ToastError string

record save_response =
  response_success :: bool
  response_fileName :: string

text \<open>
  A request is fulfilled with a response (or with none, on which reading
  \<^verbatim>\<open>response.success\<close> throws), or rejected with an error that has an optional
  \<^verbatim>\<open>response.data.message\<close> and an optional \<^verbatim>\<open>message\<close>.
\<close>

datatype settled = Fulfilled "save_response option" | Rejected "string option" "string option"

record table_row =
  savingsToCloud :: bool
  inFlight :: nat
  requestsSent :: nat
  toasts :: "toast list"

definition initial_row :: table_row where
  "initial_row = \<lparr>savingsToCloud = False, inFlight = 0, requestsSent = 0, toasts = []\<rparr>"

definition saveToCloud_call :: "table_row \<Rightarrow> table_row" where
  "saveToCloud_call r =
     (if savingsToCloud r then r
      else r\<lparr>savingsToCloud := True, inFlight := inFlight r + 1,
              requestsSent := requestsSent r + 1\<rparr>)"

text \<open>\<^verbatim>\<open>error.response?.data?.message || error.message || 'Failed to save to cloud'\<close>\<close>

fun errorMessageOf :: "string option \<Rightarrow> string option \<Rightarrow> string" where
  "errorMessageOf (Some (c # cs)) message = c # cs"
| "errorMessageOf dataMessage (Some (c # cs)) = c # cs"
| "errorMessageOf dataMessage message = ''Failed to save to cloud''"

fun toastFor :: "settled \<Rightarrow> toast" where
  "toastFor (Fulfilled (Some response)) =
     (if response_success response
      then ToastSuccess (''Successfully saved \"'' @ response_fileName response @ ''\" to cloud storage'')
      else ToastError ''Failed to save to cloud'')"
| "toastFor (Fulfilled None) = ToastError ''Cannot read properties of null''"
| "toastFor (Rejected dataMessage message) = ToastError (errorMessageOf dataMessage message)"

definition saveToCloud_resume :: "settled \<Rightarrow> table_row \<Rightarrow> table_row" where
  "saveToCloud_resume outcome r =
     r\<lparr>toasts := toasts r @ [toastFor outcome], savingsToCloud := False,
       inFlight := inFlight r - 1\<rparr>"

text \<open>
  The states of one row: it starts from \<^verbatim>\<open>data()\<close>, a click calls the method, and a
  request in flight settles.
\<close>

inductive row_reachable :: "table_row \<Rightarrow> bool" where
  mounted: "row_reachable initial_row"
| clicked: "row_reachable r \<Longrightarrow> row_reachable (saveToCloud_call r)"
| settles: "row_reachable r \<Longrightarrow> 0 < inFlight r \<Longrightarrow> row_reachable (saveToCloud_resume outcome r)"

section \<open>Auxiliary notions for the proofs\<close>





section \<open>Properties of the key derivation\<close>

subsection \<open>Characters\<close>






lemma space_isWhiteSpace: "isWhiteSpace SPACE"
  by (simp add: isWhiteSpace_def)


subsection \<open>Lowercasing\<close>

text \<open>On a string of ASCII code units the case table is not consulted.\<close>

lemma toLowerCaseFrom_ascii:
  "list_all isAscii s \<Longrightarrow> toLowerCaseFrom table before s = map asciiToLower s"
  by (induction s arbitrary: before) (auto simp: isAscii_def)

lemma toLowerCase_ascii: "list_all isAscii s \<Longrightarrow> toLowerCase table s = map asciiToLower s"
  by (simp add: toLowerCase_def toLowerCaseFrom_ascii)


subsection \<open>The body of a key\<close>

lemma set_replaceUnsafe:
  "x \<in> set (replaceUnsafe s) \<Longrightarrow>
     isAsciiLower x \<or> isAsciiUpper x \<or> isDigit x \<or> isWhiteSpace x \<or> x = SLASH"
  by (auto simp: replaceUnsafe_def space_isWhiteSpace)

lemma set_trim: "set (trim s) \<subseteq> set s"
proof -
  have "set (trim s) = set (dropWhile isWhiteSpace (rev (dropWhile isWhiteSpace s)))"
    by (simp add: trim_def)
  also have "\<dots> \<subseteq> set (rev (dropWhile isWhiteSpace s))"
    using set_dropWhileD by fastforce
  also have "\<dots> \<subseteq> set s"
    using set_dropWhileD by fastforce
  finally show ?thesis .
qed

lemma set_collapseSpaces:
  "x \<in> set (collapseSpaces s) \<Longrightarrow> x = SPACE \<or> (x \<in> set s \<and> \<not> isWhiteSpace x)"
  by (induction s arbitrary: x rule: collapseSpaces.induct) (auto split: if_splits)

text \<open>
  When \<^verbatim>\<open>toLowerCase\<close> is reached in the chain for the body, only ASCII letters, digits,
  spaces and slashes are left.
\<close>

lemma collapsed_chars:
  assumes "z \<in> set (collapseSpaces (trim (replaceUnsafe s)))"
  shows "z = SPACE \<or> isAsciiLower z \<or> isAsciiUpper z \<or> isDigit z \<or> z = SLASH"
proof -
  from set_collapseSpaces[OF assms]
  show ?thesis using set_trim set_replaceUnsafe by blast
qed

lemma collapsed_ascii: "list_all isAscii (collapseSpaces (trim (replaceUnsafe s)))"
  unfolding list_all_iff
proof
  fix z assume "z \<in> set (collapseSpaces (trim (replaceUnsafe s)))"
  from collapsed_chars[OF this] show "isAscii z"
    by (auto simp: isAscii_def isAsciiLower_def isAsciiUpper_def isDigit_def)
qed

lemma safeName_eq:
  "safeName table fileName =
     spacesToDashes (map asciiToLower (collapseSpaces (trim (replaceUnsafe (nameWithoutExt fileName)))))"
  by (simp add: safeName_def toLowerCase_ascii[OF collapsed_ascii])




text \<open>The body does not depend on the case table.\<close>

lemma safeName_any_table: "safeName table fileName = safeName table' fileName"
  by (simp add: safeName_eq)

subsection \<open>The extension of a key\<close>






lemma ext_ascii: "list_all isAscii fileName \<Longrightarrow> list_all isAscii (ext fileName)"
  by (auto simp: ext_def substringFrom_def list_all_iff dest: in_set_dropD)

lemma safeExt_ascii_any_table:
  "list_all isAscii fileName \<Longrightarrow> safeExt table fileName = safeExt table' fileName"
  by (simp add: safeExt_def toLowerCase_ascii[OF ext_ascii])

subsection \<open>The leading slash\<close>











text \<open>For a file name in ASCII the key does not depend on the case table.\<close>

lemma s3SafeFileName_ascii_any_table:
  "list_all isAscii fileName \<Longrightarrow> s3SafeFileName table fileName = s3SafeFileName table' fileName"
  using safeName_any_table[of table fileName table'] safeExt_ascii_any_table[of fileName table table']
  by (simp add: s3SafeFileName_def)

subsection \<open>Claims about the key derivation\<close>

text \<open>The definitions that evaluate a key on a concrete file name.\<close>

lemmas key_defs = js_def s3SafeFileName_def safeName_def safeExt_def ext_def nameWithoutExt_def
  substringFrom_def substringTo_def toLowerCase_def asciiToLower_def trim_def replaceUnsafe_def
  spacesToDashes_def removeLeadingSlash_def isWhiteSpace_def isAsciiUpper_def isAsciiLower_def
  isDigit_def example_table_def example_fileName_def

text \<open>
  Claim C4, as stated: \<^verbatim>\<open>s3SafeFileName\<close> maps \<^verbatim>\<open>"My Book (Part 1)/Chapter.MP3"\<close> to
  \<^verbatim>\<open>"my-book-part-1/chapter.mp3"\<close>. It does not: the closing parenthesis becomes a space,
  the space becomes a dash, and the dash stays in front of the slash.
\<close>

theorem s3SafeFileName_example_counterexample:
  "s3SafeFileName example_table (js ''My Book (Part 1)/Chapter.MP3'')
     \<noteq> js ''my-book-part-1/chapter.mp3''"
  by (simp add: key_defs)

text \<open>
  Claim C4, amended: \<^verbatim>\<open>s3SafeFileName\<close> maps \<^verbatim>\<open>"My Book (Part 1)/Chapter.MP3"\<close> to exactly
  the key \<^verbatim>\<open>"my-book-part-1-/chapter.mp3"\<close> (under every case table: the name is ASCII).
\<close>

theorem s3SafeFileName_example:
  "s3SafeFileName table (js ''My Book (Part 1)/Chapter.MP3'') = js ''my-book-part-1-/chapter.mp3''"
proof -
  have a: "list_all isAscii (js ''My Book (Part 1)/Chapter.MP3'')"
    by (simp add: js_def isAscii_def)
  have b: "s3SafeFileName example_table (js ''My Book (Part 1)/Chapter.MP3'')
             = js ''my-book-part-1-/chapter.mp3''"
    by (simp add: key_defs)
  from s3SafeFileName_ascii_any_table[OF a, of table example_table] b show ?thesis by simp
qed

theorem s3SafeFileName_example_witness:
  "s3SafeFileName example_table (js ''My Book (Part 1)/Chapter.MP3'')
     = js ''my-book-part-1-/chapter.mp3''"
  using s3SafeFileName_example[of example_table] .


text \<open>The same under every case table: the name is ASCII.\<close>

lemma s3SafeFileName_leading_slash_any_table:
  "s3SafeFileName table (js ''//a'') = js ''/a''"
proof -
  have a: "list_all isAscii (js ''//a'')" by (simp add: js_def isAscii_def)
  have b: "s3SafeFileName example_table (js ''//a'') = js ''/a''" by (simp add: key_defs)
  from s3SafeFileName_ascii_any_table[OF a, of table example_table] b show ?thesis by simp
qed




section \<open>Properties of the storage manager\<close>

subsection \<open>The concrete inputs, evaluated\<close>

lemma init_example_ok:
  "fst (init example_settings new_StorageManager empty_store) = Inr ()"
  by (simp add: init_def initS3Storage_def testS3Connection_def send_def request_def
      new_StorageManager_def example_settings_def empty_store_def Let_def)

lemma ready_manager_eq:
  "ready_manager =
     \<lparr>s3Client = Some (S3Client (Some ''us-east-1'') (Some ''AKIA'') (Some ''secret'')),
      bucket = Some ''abs-cache'', isInitialized = True, isS3Enabled = False\<rparr>"
  by (simp add: ready_manager_def init_def initS3Storage_def testS3Connection_def send_def
      request_def new_StorageManager_def example_settings_def empty_store_def Let_def)

lemma ready_store_eq:
  "ready_store =
     \<lparr>objects = Map.empty, requests = [HeadBucketCommand (Some ''abs-cache'')],
      clients = [S3Client (Some ''us-east-1'') (Some ''AKIA'') (Some ''secret'')],
      failure = (\<lambda>n c. None)\<rparr>"
  by (simp add: ready_store_def init_def initS3Storage_def testS3Connection_def send_def
      request_def new_StorageManager_def example_settings_def empty_store_def Let_def)

lemma reachable_ready_manager: "reachable ready_manager"
  unfolding ready_manager_def by (rule reachable.initialised[OF reachable.constructed])

lemma accessDenied_not_NotFound: "\<not> isNotFound accessDenied"
  by (simp add: isNotFound_def accessDenied_def)

subsection \<open>Lifecycle\<close>

lemma init_keeps_isS3Enabled: "isS3Enabled (fst (snd (init s m w))) = isS3Enabled m"
  by (simp add: init_def initS3Storage_def Let_def split: prod.splits sum.splits)

lemma reachable_not_enabled: "reachable m \<Longrightarrow> \<not> isS3Enabled m"
  by (induction rule: reachable.induct)
     (simp_all add: new_StorageManager_def init_keeps_isS3Enabled)

lemma init_success:
  assumes "init s m w = (Inr (), m1, w1)" and "cloudStorageEnabled s"
  shows "isInitialized m1
       \<and> requests w1 = requests w @ [HeadBucketCommand (cloudStorageS3Bucket s)]
       \<and> clients w1 = clients w @ [S3Client (cloudStorageS3Region s)
                                     (cloudStorageS3AccessKey s) (cloudStorageS3SecretKey s)]"
  using assms
  by (auto simp: init_def initS3Storage_def testS3Connection_def send_def request_def Let_def
      split: if_splits sum.splits prod.splits option.splits)

lemma init_complete_configuration:
  assumes "cloudStorageEnabled s" "truthy (cloudStorageS3Region s)"
    "truthy (cloudStorageS3Bucket s)" "truthy (cloudStorageS3AccessKey s)"
    "truthy (cloudStorageS3SecretKey s)"
  shows "requests (snd (snd (init s m w)))
           = requests w @ [HeadBucketCommand (cloudStorageS3Bucket s)]
       \<and> clients (snd (snd (init s m w)))
           = clients w @ [S3Client (cloudStorageS3Region s)
                            (cloudStorageS3AccessKey s) (cloudStorageS3SecretKey s)]
       \<and> (isInitialized m \<longrightarrow> isInitialized (fst (snd (init s m w))))"
  using assms
  by (auto simp: init_def initS3Storage_def testS3Connection_def send_def request_def Let_def
      split: if_splits sum.splits prod.splits option.splits)

text \<open>
  Claim C8: for every configuration with the enabled flag true in which the region, the
  bucket, the access key or the secret key is empty or missing, \<^verbatim>\<open>init\<close> fails with a
  configuration error; the manager and the store are as before, so no client was
  constructed and no request sent; a new manager stays uninitialised.
\<close>

theorem init_incomplete_configuration:
  assumes "cloudStorageEnabled settings"
    and "\<not> truthy (cloudStorageS3Region settings) \<or> \<not> truthy (cloudStorageS3Bucket settings)
         \<or> \<not> truthy (cloudStorageS3AccessKey settings)
         \<or> \<not> truthy (cloudStorageS3SecretKey settings)"
  shows "(init settings m w
            = (Inl (Error ''S3 storage requires region and bucket configuration''), m, w)
          \<or> init settings m w
            = (Inl (Error ''S3 storage requires access key and secret key''), m, w))
       \<and> clients (snd (snd (init settings m w))) = clients w
       \<and> requests (snd (snd (init settings m w))) = requests w
       \<and> s3Client (fst (snd (init settings new_StorageManager w))) = None
       \<and> \<not> isInitialized (fst (snd (init settings new_StorageManager w)))"
  using assms by (auto simp: init_def initS3Storage_def new_StorageManager_def)

theorem init_incomplete_configuration_witness:
  "cloudStorageEnabled (example_settings\<lparr>cloudStorageS3SecretKey := Some ''''\<rparr>)
   \<and> \<not> truthy (cloudStorageS3SecretKey (example_settings\<lparr>cloudStorageS3SecretKey := Some ''''\<rparr>))
   \<and> init (example_settings\<lparr>cloudStorageS3SecretKey := Some ''''\<rparr>) new_StorageManager empty_store
       = (Inl (Error ''S3 storage requires access key and secret key''),
          new_StorageManager, empty_store)
   \<and> clients empty_store = []
   \<and> requests empty_store = []"
proof -
  let ?s = "example_settings\<lparr>cloudStorageS3SecretKey := Some ''''\<rparr>"
  have a: "cloudStorageEnabled ?s" by (simp add: example_settings_def)
  have b: "\<not> truthy (cloudStorageS3Region ?s) \<or> \<not> truthy (cloudStorageS3Bucket ?s)
           \<or> \<not> truthy (cloudStorageS3AccessKey ?s) \<or> \<not> truthy (cloudStorageS3SecretKey ?s)"
    by (simp add: example_settings_def)
  have c: "init ?s new_StorageManager empty_store
             \<noteq> (Inl (Error ''S3 storage requires region and bucket configuration''),
                 new_StorageManager, empty_store)"
    by (simp add: init_def initS3Storage_def example_settings_def Error_def)
  from init_incomplete_configuration[OF a b, of new_StorageManager empty_store] a c
  show ?thesis by (simp add: example_settings_def empty_store_def)
qed

text \<open>
  Claim C5, as stated, says that the second of two \<^verbatim>\<open>init\<close> calls with the same valid
  configuration is a no-op and that the bucket probe is issued at most once. \<^verbatim>\<open>init\<close>
  has no check of \<^verbatim>\<open>isInitialized\<close>: the second call builds a client and probes again.
\<close>

theorem init_twice_counterexample:
  "fst (init example_settings new_StorageManager empty_store) = Inr ()
   \<and> isInitialized ready_manager
   \<and> fst (init example_settings ready_manager ready_store) = Inr ()
   \<and> isInitialized (fst (snd (init example_settings ready_manager ready_store)))
   \<and> \<not> length (filter isHeadBucket
          (requests (snd (snd (init example_settings ready_manager ready_store))))) \<le> 1"
  by (simp add: ready_manager_eq ready_store_eq init_example_ok)
     (simp add: init_def initS3Storage_def testS3Connection_def send_def request_def
        example_settings_def Let_def)

text \<open>
  Claim C5, amended: when \<^verbatim>\<open>init\<close> is called twice in sequence with the same valid
  configuration and the first call succeeds, the manager is initialised after each call;
  the second call is not a no-op: each call constructs a client and issues its own bucket
  probe, two probes in all.
\<close>

theorem init_twice:
  assumes "cloudStorageEnabled s" "truthy (cloudStorageS3Region s)"
    "truthy (cloudStorageS3Bucket s)" "truthy (cloudStorageS3AccessKey s)"
    "truthy (cloudStorageS3SecretKey s)"
    and "init s m w = (Inr (), m1, w1)"
  shows "isInitialized m1 \<and> isInitialized (fst (snd (init s m1 w1)))
       \<and> requests (snd (snd (init s m1 w1)))
           = requests w @ [HeadBucketCommand (cloudStorageS3Bucket s),
                           HeadBucketCommand (cloudStorageS3Bucket s)]
       \<and> clients (snd (snd (init s m1 w1)))
           = clients w @ [S3Client (cloudStorageS3Region s) (cloudStorageS3AccessKey s)
                            (cloudStorageS3SecretKey s),
                          S3Client (cloudStorageS3Region s) (cloudStorageS3AccessKey s)
                            (cloudStorageS3SecretKey s)]"
  using init_success[OF assms(6) assms(1)] init_complete_configuration[OF assms(1-5), of m1 w1]
  by simp

theorem init_twice_witness:
  "init example_settings new_StorageManager empty_store = (Inr (), ready_manager, ready_store)
   \<and> isInitialized ready_manager
   \<and> isInitialized (fst (snd (init example_settings ready_manager ready_store)))
   \<and> requests (snd (snd (init example_settings ready_manager ready_store)))
       = [HeadBucketCommand (Some ''abs-cache''), HeadBucketCommand (Some ''abs-cache'')]"
proof -
  have a: "cloudStorageEnabled example_settings" "truthy (cloudStorageS3Region example_settings)"
    "truthy (cloudStorageS3Bucket example_settings)"
    "truthy (cloudStorageS3AccessKey example_settings)"
    "truthy (cloudStorageS3SecretKey example_settings)"
    by (simp_all add: example_settings_def)
  have b: "init example_settings new_StorageManager empty_store
             = (Inr (), ready_manager, ready_store)"
    using init_example_ok by (simp add: ready_manager_def ready_store_def prod_eq_iff)
  from init_twice[OF a b] b show ?thesis
    by (simp add: example_settings_def empty_store_def)
qed

subsection \<open>Cache writer\<close>

text \<open>
  Claim C7: for every file name or item identifier and every payload, \<^verbatim>\<open>cacheZipFile\<close>
  and \<^verbatim>\<open>cacheFile\<close> on a manager that is not initialised fail with the error
  \<^verbatim>\<open>S3 storage not initialized\<close>, and the store is as before: no request was sent.
\<close>

theorem store_not_initialized:
  assumes "\<not> isInitialized m"
  shows "cacheZipFile m w itemId payload = (Inl (Error ''S3 storage not initialized''), w)
       \<and> cacheFile table m w fileName payload = (Inl (Error ''S3 storage not initialized''), w)"
  using assms by (simp add: cacheZipFile_def cacheFile_def)

theorem store_not_initialized_witness:
  "\<not> isInitialized new_StorageManager
   \<and> cacheZipFile new_StorageManager empty_store (js ''li_1'') (Buffer [80, 75])
       = (Inl (Error ''S3 storage not initialized''), empty_store)
   \<and> cacheFile example_table new_StorageManager empty_store (js ''a.mp3'') (Stream [1])
       = (Inl (Error ''S3 storage not initialized''), empty_store)"
proof -
  have h: "\<not> isInitialized new_StorageManager" by (simp add: new_StorageManager_def)
  show ?thesis using h store_not_initialized[OF h] by simp
qed

subsection \<open>Existence check\<close>

text \<open>
  Claim C1 says that \<^verbatim>\<open>zipFileExists\<close> returns true after a successful store of the same
  key on an initialised manager. The code at that input: \<^verbatim>\<open>init\<close> succeeds,
  \<^verbatim>\<open>cacheZipFile\<close> succeeds and the object is in the store, and \<^verbatim>\<open>zipFileExists\<close>
  (either revision) returns false without asking the store, because \<^verbatim>\<open>isS3Enabled\<close> is
  still false: the constructor sets it to false and no method sets it to true.
\<close>

theorem zipFileExists_false_after_store:
  "fst (init example_settings new_StorageManager empty_store) = Inr ()
   \<and> isInitialized ready_manager
   \<and> fst (zipFileExists ready_manager ready_store (js ''li_1'')) = Inr False
   \<and> fst (cacheZipFile ready_manager ready_store (js ''li_1'') (Buffer [80, 75]))
       = Inr (js ''audiobooks/li_1.zip'')
   \<and> objects (snd (cacheZipFile ready_manager ready_store (js ''li_1'') (Buffer [80, 75])))
        (Some ''abs-cache'', js ''audiobooks/li_1.zip'') = Some [80, 75]
   \<and> fst (zipFileExists ready_manager
            (snd (cacheZipFile ready_manager ready_store (js ''li_1'') (Buffer [80, 75]))) (js ''li_1''))
       = Inr False
   \<and> fst (zipFileExists_StorageManager example_table ready_manager
            (snd (cacheFile example_table ready_manager ready_store (js ''li_1'') (Buffer [80, 75]))) (js ''li_1''))
       = Inr False"
  by (simp add: init_example_ok)
     (simp add: ready_manager_eq ready_store_eq cacheZipFile_def zipFileExists_def
        zipFileExists_StorageManager_def getKey_def js_def send_def request_def Let_def)

theorem zipFileExists_false_after_store_witness:
  "objects (snd (cacheZipFile ready_manager ready_store (js ''li_1'') (Buffer [80, 75])))
     (Some ''abs-cache'', js ''audiobooks/li_1.zip'') \<noteq> None
   \<and> fst (zipFileExists ready_manager
            (snd (cacheZipFile ready_manager ready_store (js ''li_1'') (Buffer [80, 75]))) (js ''li_1''))
       \<noteq> Inr True"
  using zipFileExists_false_after_store by simp

text \<open>
  On every manager the class can produce (the constructor followed by any number of
  \<^verbatim>\<open>init\<close> calls) the guard of \<^verbatim>\<open>zipFileExists\<close> returns false before the store is
  asked, so its \<^verbatim>\<open>try\<close> block is never run (see claim C1).
\<close>

lemma zipFileExists_guard_returns:
  assumes "reachable m"
  shows "zipFileExists m w itemId = (Inr False, w)
       \<and> zipFileExists_StorageManager table m w itemId = (Inr False, w)"
  using reachable_not_enabled[OF assms]
  by (simp add: zipFileExists_def zipFileExists_StorageManager_def)

text \<open>
  Where the \<^verbatim>\<open>try\<close> block runs, that is on a manager whose two flags are both true, a
  not-found answer gives false, and any other error raises a \<^verbatim>\<open>ReferenceError\<close>, since
  the log message of that branch names \<^verbatim>\<open>bookId\<close>.
\<close>

lemma zipFileExists_not_found_branch:
  assumes "isNotFound error"
    and "send m w (HeadObjectCommand (bucket m) (getKey itemId)) = (Inl error, w')"
  shows "fst (zipFileExists m w itemId) = Inr False"
  using assms by (simp add: zipFileExists_def)

lemma zipFileExists_other_error_branch:
  assumes "isInitialized m" and "isS3Enabled m" and "\<not> isNotFound error"
    and "send m w (HeadObjectCommand (bucket m) (getKey itemId)) = (Inl error, w')"
  shows "zipFileExists m w itemId = (Inl (ReferenceError ''bookId''), w')"
  using assms by (simp add: zipFileExists_def)




subsection \<open>Signed URLs\<close>

text \<open>
  Claim C2, as stated, covers both signed-URL methods. \<^verbatim>\<open>getSignedUrlForFile\<close> does not
  propagate the error of a failing probe: on an initialised manager whose head request is
  answered with an access-denied error, the caller does not get that error.
\<close>

theorem getSignedUrlForFile_counterexample:
  "isInitialized ready_manager
   \<and> \<not> isNotFound accessDenied
   \<and> fst (send ready_manager denying_store
            (HeadObjectCommand (bucket ready_manager) (s3SafeFileName example_table (js ''Book.MP3''))))
       = Inl accessDenied
   \<and> fst (getSignedUrlForFile example_table ready_manager denying_store (js ''Book.MP3'') None)
       \<noteq> Inl accessDenied"
  by (simp add: ready_manager_eq getSignedUrlForFile_def send_def request_def denying_store_def
      isNotFound_def accessDenied_def ReferenceError_def Let_def)

text \<open>
  Claim C2, amended: for every item identifier and expiry, when the existence probe or
  the URL signing of \<^verbatim>\<open>getSignedUrlForZipFile\<close> fails with an error whose kind is not
  not-found, the method propagates that error to the caller and does not return
  \<^verbatim>\<open>null\<close>. (\<^verbatim>\<open>getSignedUrlForFile\<close> is not covered.)
\<close>

theorem getSignedUrlForZipFile_propagates:
  assumes "isInitialized m" and "\<not> isNotFound error"
    and "send m w (HeadObjectCommand (bucket m) (getKey itemId)) = (Inl error, w')
         \<or> (\<exists>w1. send m w (HeadObjectCommand (bucket m) (getKey itemId)) = (Inr (), w1)
                  \<and> getSignedUrl m w1 (getKey itemId) (expiresInOrDefault expiresIn)
                      = (Inl error, w'))"
  shows "getSignedUrlForZipFile m w itemId expiresIn = (Inl error, w')"
  using assms by (auto simp: getSignedUrlForZipFile_def Let_def)

theorem getSignedUrlForZipFile_propagates_witness:
  "isInitialized ready_manager
   \<and> \<not> isNotFound accessDenied
   \<and> fst (send ready_manager denying_store
            (HeadObjectCommand (bucket ready_manager) (getKey (js ''li_1'')))) = Inl accessDenied
   \<and> fst (getSignedUrlForZipFile ready_manager denying_store (js ''li_1'') None) = Inl accessDenied
   \<and> fst (send ready_manager unsigning_store
            (HeadObjectCommand (bucket ready_manager) (getKey (js ''li_1'')))) = Inr ()
   \<and> fst (getSignedUrlForZipFile ready_manager unsigning_store (js ''li_1'') (Some 60))
       = Inl accessDenied"
proof -
  let ?head = "HeadObjectCommand (bucket ready_manager) (getKey (js ''li_1''))"
  let ?w' = "denying_store\<lparr>requests := [?head]\<rparr>"
  let ?u1 = "unsigning_store\<lparr>requests := [?head]\<rparr>"
  let ?u2 = "unsigning_store\<lparr>requests := [?head, GetObjectPresign (bucket ready_manager) (getKey (js ''li_1'')) 60]\<rparr>"
  have a: "isInitialized ready_manager" by (simp add: ready_manager_eq)
  have c: "send ready_manager denying_store ?head = (Inl accessDenied, ?w')"
    by (simp add: ready_manager_eq send_def request_def denying_store_def)
  have d: "send ready_manager unsigning_store ?head = (Inr (), ?u1)"
    by (simp add: ready_manager_eq send_def request_def unsigning_store_def getKey_def js_def)
  have e: "getSignedUrl ready_manager ?u1 (getKey (js ''li_1'')) (expiresInOrDefault (Some 60))
             = (Inl accessDenied, ?u2)"
    by (simp add: ready_manager_eq getSignedUrl_def send_def request_def unsigning_store_def)
  have f: "\<exists>w1. send ready_manager unsigning_store ?head = (Inr (), w1)
             \<and> getSignedUrl ready_manager w1 (getKey (js ''li_1'')) (expiresInOrDefault (Some 60))
                 = (Inl accessDenied, ?u2)"
    using d e by blast
  from getSignedUrlForZipFile_propagates[OF a accessDenied_not_NotFound disjI1[OF c], of None]
    getSignedUrlForZipFile_propagates[OF a accessDenied_not_NotFound disjI2[OF f]]
    a accessDenied_not_NotFound c d
  show ?thesis by simp
qed

section \<open>Properties of the migration\<close>

subsection \<open>The number conversions\<close>





subsection \<open>The loop\<close>






subsection \<open>One row\<close>




subsection \<open>Claim about the migration\<close>


text \<open>The same under every runtime: the number is within the range that is modelled exactly.\<close>

lemma up_rewrites_number_any_runtime:
  "up other (\<lambda>u. False) (Some [big_number_user])
     = Some [big_number_user\<lparr>permissions :=
               Json (JObj [(''n'', JNum (Digits 9007199254740992)),
                           (''saveToCloud'', JBool True)])\<rparr>]"
  by (simp add: big_number_user_def up_def selectRootAndAdmin_def isRootOrAdmin_def upUser_def
      updatePermissions_def numberRoundTrip_def nearestDouble_def)



section \<open>Properties of \<^verbatim>\<open>saveToCloud\<close> in the table row\<close>

lemma row_invariant:
  "row_reachable r \<Longrightarrow> inFlight r = (if savingsToCloud r then 1 else 0)"
proof (induction rule: row_reachable.induct)
  case mounted
  then show ?case by (simp add: initial_row_def)
next
  case (clicked r)
  then show ?case by (simp add: saveToCloud_call_def)
next
  case (settles r outcome)
  then show ?case by (simp add: saveToCloud_resume_def split: if_splits)
qed

text \<open>
  Claim C10: in every state the row can reach, at most one save-to-cloud request is in
  flight, and one is in flight exactly while \<^verbatim>\<open>savingsToCloud\<close> is true; calling
  \<^verbatim>\<open>saveToCloud\<close> while it is true returns with the state as it was, so no request is
  sent; and when the request in flight settles, fulfilled or rejected, the rest of the
  method leaves \<^verbatim>\<open>savingsToCloud\<close> false and no request in flight.
\<close>

theorem saveToCloud_single_flight:
  assumes "row_reachable r"
  shows "inFlight r \<le> 1
       \<and> (savingsToCloud r \<longleftrightarrow> inFlight r = 1)
       \<and> (savingsToCloud r \<longrightarrow> saveToCloud_call r = r)
       \<and> (0 < inFlight r \<longrightarrow>
             \<not> savingsToCloud (saveToCloud_resume outcome r)
             \<and> inFlight (saveToCloud_resume outcome r) = 0
             \<and> requestsSent (saveToCloud_resume outcome r) = requestsSent r)"
  using row_invariant[OF assms]
  by (auto simp: saveToCloud_call_def saveToCloud_resume_def split: if_splits)

theorem saveToCloud_single_flight_witness:
  "row_reachable (saveToCloud_call initial_row)
   \<and> savingsToCloud (saveToCloud_call initial_row)
   \<and> inFlight (saveToCloud_call initial_row) = 1
   \<and> requestsSent (saveToCloud_call initial_row) = 1
   \<and> saveToCloud_call (saveToCloud_call initial_row) = saveToCloud_call initial_row
   \<and> \<not> savingsToCloud (saveToCloud_resume (Rejected None (Some ''timeout of 300000ms exceeded''))
                          (saveToCloud_call initial_row))
   \<and> inFlight (saveToCloud_resume (Rejected None (Some ''timeout of 300000ms exceeded''))
                 (saveToCloud_call initial_row)) = 0"
proof -
  have a: "row_reachable (saveToCloud_call initial_row)"
    by (rule row_reachable.clicked[OF row_reachable.mounted])
  have b: "savingsToCloud (saveToCloud_call initial_row)"
    "requestsSent (saveToCloud_call initial_row) = 1"
    by (simp_all add: saveToCloud_call_def initial_row_def)
  from saveToCloud_single_flight[OF a, of "Rejected None (Some ''timeout of 300000ms exceeded'')"]
    a b
  show ?thesis by simp
qed

end
